theory Spec2Isabelle
  imports Complex_Main "HOL-Library.Word"
begin

unbundle bit_operations_syntax

section \<open>SSO-1 oracle function: data model\<close>

text \<open>
  The repository has two Python modules: \<^verbatim>\<open>oracle/offchain/function/main.py\<close> (the
  Switchboard function entry point with the three pipeline stages) and
  \<^verbatim>\<open>oracle/offchain/scoring/__init__.py\<close> (the scoring module). Python's unbounded
  integers are \<^typ>\<open>int\<close>, \<^verbatim>\<open>bytes\<close> values are lists of 8-bit words, a dataclass is
  a record and an \<^verbatim>\<open>IntEnum\<close> is a datatype together with its integer values.
\<close>

type_synonym bytes = "8 word list"

text \<open>\<^verbatim>\<open>bytes(n)\<close>: n zero bytes.\<close>

definition zero_bytes :: "nat \<Rightarrow> bytes" where
  "zero_bytes n = replicate n 0"

text \<open>
  \<^verbatim>\<open>SignalType\<close> and \<^verbatim>\<open>Direction\<close> are declared twice in the source, once per module,
  with the same members and values; one datatype stands for both declarations.
\<close>

datatype SignalType =
    MOMENTUM | MEAN_REVERSION | VOLATILITY | LIQUIDITY | BREAKOUT
  | RISK | CORRELATION | ARBITRAGE | SENTIMENT

datatype Direction = NEUTRAL | LONG | SHORT

fun SignalType_value :: "SignalType \<Rightarrow> int" where
  "SignalType_value MOMENTUM = 0"
| "SignalType_value MEAN_REVERSION = 1"
| "SignalType_value VOLATILITY = 2"
| "SignalType_value LIQUIDITY = 3"
| "SignalType_value BREAKOUT = 4"
| "SignalType_value RISK = 5"
| "SignalType_value CORRELATION = 6"
| "SignalType_value ARBITRAGE = 7"
| "SignalType_value SENTIMENT = 8"

fun Direction_value :: "Direction \<Rightarrow> int" where
  "Direction_value NEUTRAL = 0"
| "Direction_value LONG = 1"
| "Direction_value SHORT = 2"

fun Direction_name :: "Direction \<Rightarrow> string" where
  "Direction_name NEUTRAL = ''NEUTRAL''"
| "Direction_name LONG = ''LONG''"
| "Direction_name SHORT = ''SHORT''"

record MarketContext =
  slot :: int
  asset_pair :: bytes
  price :: int
  volume_24h :: int
  volatility_1h :: int
  liquidity_depth :: int
  source_bitmap :: int
  source_count :: int

text \<open>
  \<^verbatim>\<open>ScoringResult\<close> (scoring module) and \<^verbatim>\<open>SignalAssessment\<close> (main module) share four
  field names; the fields of the former are read as \<open>ScoringResult.magnitude\<close> and so on.
\<close>

record ScoringResult =
  signal_type :: SignalType
  direction :: Direction
  magnitude :: int
  confidence :: int

record SignalAssessment =
  signal_type :: SignalType
  direction :: Direction
  magnitude :: int
  confidence :: int
  valid_from_slot :: int
  valid_until_slot :: int
  model_version :: bytes

record TeeReceipt =
  enclave_signer :: bytes
  attestation_hash :: bytes
  mr_enclave :: bytes
  timestamp_slot :: int
  platform_version :: int

record FunctionResult =
  market_context :: MarketContext
  signal_assessment :: SignalAssessment
  tee_receipt :: TeeReceipt

text \<open>
  \<^verbatim>\<open>ScoringConfig\<close>. The field \<^verbatim>\<open>magnitude_scale_factor\<close> is a Python float with default
  1.0; no function of the source reads it, so it is carried as a real number.
\<close>

record ScoringConfig =
  min_sources_for_confidence :: int
  min_liquidity_depth :: int
  magnitude_scale_factor :: real
  default_validity_slots :: int
  max_validity_slots :: int

text \<open>\<^verbatim>\<open>ScoringConfig()\<close>: the dataclass defaults.\<close>

definition ScoringConfig_default :: ScoringConfig where
  "ScoringConfig_default =
     \<lparr>min_sources_for_confidence = 3, min_liquidity_depth = 100000,
      magnitude_scale_factor = 1, default_validity_slots = 25, max_validity_slots = 100\<rparr>"

section \<open>Logging\<close>

text \<open>
  The only effect of the functions below is a call of \<^verbatim>\<open>logger.warning\<close> or
  \<^verbatim>\<open>logger.info\<close>. The logging state is the threshold set by \<^verbatim>\<open>logging.basicConfig\<close> from
  \<^verbatim>\<open>LOG_LEVEL\<close> and the records handled so far (level number and message); a record below
  the threshold is dropped. Every function takes the logging state and returns the new one.
\<close>

record logging_state =
  level :: nat
  handled :: "(nat \<times> string) list"

definition WARNING :: nat where
  "WARNING = 30"

definition INFO :: nat where
  "INFO = 20"

definition logger_log :: "nat \<Rightarrow> string \<Rightarrow> logging_state \<Rightarrow> logging_state" where
  "logger_log lv msg lg = (if level lg \<le> lv then lg\<lparr>handled := handled lg @ [(lv, msg)]\<rparr> else lg)"

definition logger_warning :: "string \<Rightarrow> logging_state \<Rightarrow> logging_state" where
  "logger_warning msg lg = logger_log WARNING msg lg"

definition logger_info :: "string \<Rightarrow> logging_state \<Rightarrow> logging_state" where
  "logger_info msg lg = logger_log INFO msg lg"

section \<open>Scoring module\<close>

definition compute_confidence ::
  "int \<Rightarrow> int \<Rightarrow> int \<Rightarrow> ScoringConfig \<Rightarrow> logging_state \<Rightarrow> int \<times> logging_state" where
  "compute_confidence source_count liquidity_depth volatility config lg =
     (0, logger_warning ''compute_confidence: NOT IMPLEMENTED - returning 0'' lg)"
  for source_count liquidity_depth volatility config lg

definition compute_direction ::
  "int \<Rightarrow> int \<Rightarrow> int \<Rightarrow> SignalType \<Rightarrow> logging_state \<Rightarrow> Direction \<times> logging_state" where
  "compute_direction price volume volatility signal_type lg =
     (NEUTRAL, logger_warning ''compute_direction: NOT IMPLEMENTED - returning NEUTRAL'' lg)"
  for price volume volatility signal_type lg

definition compute_magnitude ::
  "int \<Rightarrow> int \<Rightarrow> int \<Rightarrow> Direction \<Rightarrow> ScoringConfig \<Rightarrow> logging_state \<Rightarrow> int \<times> logging_state" where
  "compute_magnitude price volume volatility direction config lg =
     (50, logger_warning ''compute_magnitude: NOT IMPLEMENTED - returning 50'' lg)"
  for price volume volatility direction config lg

definition determine_signal_type ::
  "int \<Rightarrow> int \<Rightarrow> int \<Rightarrow> logging_state \<Rightarrow> SignalType \<times> logging_state" where
  "determine_signal_type volatility volume liquidity_depth lg =
     (MOMENTUM, logger_warning ''determine_signal_type: NOT IMPLEMENTED - returning MOMENTUM'' lg)"
  for volatility volume liquidity_depth lg

text \<open>
  \<^verbatim>\<open>score_market_context\<close>: the optional configuration is \<open>None\<close> when the caller omits
  it, and is then replaced by the defaults; the four sub-computations run in the source's
  order, each on the logging state the previous one left.
\<close>

definition score_market_context ::
  "int \<Rightarrow> int \<Rightarrow> int \<Rightarrow> int \<Rightarrow> int \<Rightarrow> int \<Rightarrow> ScoringConfig option \<Rightarrow> logging_state
     \<Rightarrow> ScoringResult \<times> logging_state" where
  "score_market_context slot price volume_24h volatility_1h liquidity_depth source_count config lg =
     (let config' = (case config of None \<Rightarrow> ScoringConfig_default | Some c \<Rightarrow> c);
          (signal_type, lg1) = determine_signal_type volatility_1h volume_24h liquidity_depth lg;
          (direction, lg2) = compute_direction price volume_24h volatility_1h signal_type lg1;
          (magnitude, lg3) = compute_magnitude price volume_24h volatility_1h direction config' lg2;
          (confidence, lg4) = compute_confidence source_count liquidity_depth volatility_1h config' lg3
      in (\<lparr>ScoringResult.signal_type = signal_type, direction = direction,
            magnitude = magnitude, confidence = confidence\<rparr>, lg4))"
  for slot price volume_24h volatility_1h liquidity_depth source_count config lg
    signal_type direction magnitude confidence

section \<open>Function entry point\<close>

text \<open>
  Errors. The source declares no exception class and has no \<^verbatim>\<open>raise\<close> statement; the only
  exceptions of a run are Python's own \<^verbatim>\<open>ValueError\<close> and \<^verbatim>\<open>UnicodeEncodeError\<close>, raised
  by the library calls of \<^verbatim>\<open>execute_function\<close> that read the request. The other names are
  modelled from the spec: the error taxonomy of its section 7, the names the spec gives to
  the failures of the pipeline stages. A function returns \<open>Inl\<close> of an error when it raises
  and \<open>Inr\<close> of its value when it returns.
\<close>

datatype error =
    ValueError | UnicodeEncodeError
  | InsufficientSources | StaleData | SourceTimeout
  | InvalidValidityWindow | ConfigurationError
  | UnverifiedEnclave | AttestationVerificationFailed | StaleAttestation
  | Timeout

text \<open>
  The raw market data is a Python dict from strings to lists. \<^verbatim>\<open>fetch_market_data\<close> returns
  the placeholder with four empty lists, whatever the asset pair.
\<close>

type_synonym raw_data = "string \<rightharpoonup> int list"

definition fetch_market_data :: "string \<Rightarrow> logging_state \<Rightarrow> raw_data \<times> logging_state" where
  "fetch_market_data asset_pair_str lg =
     ([''sources'' \<mapsto> [], ''prices'' \<mapsto> [], ''volumes'' \<mapsto> [], ''timestamps'' \<mapsto> []],
      logger_warning ''fetch_market_data: NOT IMPLEMENTED - returning mock data'' lg)"

definition derive_market_context ::
  "raw_data \<Rightarrow> bytes \<Rightarrow> int \<Rightarrow> logging_state \<Rightarrow> (error + MarketContext) \<times> logging_state" where
  "derive_market_context raw_data asset_pair current_slot lg =
     (Inr \<lparr>slot = current_slot, asset_pair = asset_pair, price = 0, volume_24h = 0,
           volatility_1h = 0, liquidity_depth = 0, source_bitmap = 0, source_count = 0\<rparr>,
      logger_warning ''derive_market_context: NOT IMPLEMENTED - returning placeholder'' lg)"
  for raw_data asset_pair current_slot lg

definition compute_signal_assessment ::
  "MarketContext \<Rightarrow> bytes \<Rightarrow> int \<Rightarrow> logging_state \<Rightarrow> (error + SignalAssessment) \<times> logging_state" where
  "compute_signal_assessment market_context model_version validity_slots lg =
     (let current_slot = slot market_context
      in (Inr \<lparr>signal_type = MOMENTUM, direction = NEUTRAL, magnitude = 50, confidence = 0,
                valid_from_slot = current_slot,
                valid_until_slot = current_slot + validity_slots,
                model_version = model_version\<rparr>,
          logger_warning ''compute_signal_assessment: NOT IMPLEMENTED - returning placeholder'' lg))"
  for market_context model_version validity_slots lg

definition capture_tee_attestation ::
  "MarketContext \<Rightarrow> SignalAssessment \<Rightarrow> int \<Rightarrow> logging_state \<Rightarrow> (error + TeeReceipt) \<times> logging_state" where
  "capture_tee_attestation market_context signal_assessment current_slot lg =
     (Inr \<lparr>enclave_signer = zero_bytes 32, attestation_hash = zero_bytes 32,
           mr_enclave = zero_bytes 32, timestamp_slot = current_slot, platform_version = 0\<rparr>,
      logger_warning ''capture_tee_attestation: NOT IMPLEMENTED - returning placeholder'' lg)"
  for market_context signal_assessment current_slot lg

definition get_current_slot :: "logging_state \<Rightarrow> int \<times> logging_state" where
  "get_current_slot lg = (0, logger_warning ''get_current_slot: NOT IMPLEMENTED - returning 0'' lg)"

text \<open>Python's \<^verbatim>\<open>str\<close> of an integer, for the f-strings of the log messages.\<close>

function str_nat :: "nat \<Rightarrow> string" where
  "str_nat n = (if n < 10 then [char_of (48 + n)] else str_nat (n div 10) @ [char_of (48 + n mod 10)])"
  by pat_completeness auto
termination
  by (relation "measure id") auto

declare str_nat.simps [simp del]

definition str_int :: "int \<Rightarrow> string" where
  "str_int i = (if i < 0 then ''-'' @ str_nat (nat (- i)) else str_nat (nat i))"

text \<open>\<^verbatim>\<open>b.ljust(width, fill)\<close> on bytes: padding on the right up to the width.\<close>

definition bytes_ljust :: "nat \<Rightarrow> 8 word \<Rightarrow> bytes \<Rightarrow> bytes" where
  "bytes_ljust width fill b = b @ replicate (width - length b) fill"

text \<open>
  \<^verbatim>\<open>asset_pair_str.encode().ljust(32, b'\x00')[:32]\<close> for a string of ASCII characters,
  whose encoding is the list of its characters: padded on the right with zero bytes to 32
  and cut at 32.
\<close>

definition normalize_asset_pair :: "string \<Rightarrow> bytes" where
  "normalize_asset_pair asset_pair_str =
     take 32 (bytes_ljust 32 0 (map of_char asset_pair_str))"

text \<open>
  What a run reads from the process environment. \<^verbatim>\<open>execute_function\<close> evaluates four
  expressions over \<^verbatim>\<open>os.getenv\<close> with Python library calls that are not code of the
  repository; the outcome of each is an input of the model, \<open>None\<close> when the call raises:
  \<^item> \<open>env_asset_pair\<close>: \<^verbatim>\<open>os.getenv("DEFAULT_ASSET_PAIR", "SOL/USDC")\<close>, the asset pair string
    (it is only logged);
  \<^item> \<open>env_validity_slots\<close>: \<^verbatim>\<open>int(os.getenv("DEFAULT_VALIDITY_SLOTS", "25"))\<close>, which raises
    \<^verbatim>\<open>ValueError\<close> on a string that is no integer literal;
  \<^item> \<open>env_asset_pair_encoded\<close>: \<^verbatim>\<open>asset_pair_str.encode()\<close>, which raises
    \<^verbatim>\<open>UnicodeEncodeError\<close> on a string that has no UTF-8 encoding;
  \<^item> \<open>env_model_version\<close>:
    \<^verbatim>\<open>bytes.fromhex(os.getenv("MODEL_VERSION", "00000001").ljust(16, '0'))\<close>, which raises
    \<^verbatim>\<open>ValueError\<close> on a string that is not hexadecimal.
\<close>

record environment_reads =
  env_asset_pair :: string
  env_validity_slots :: "int option"
  env_asset_pair_encoded :: "bytes option"
  env_model_version :: "bytes option"

text \<open>
  \<^verbatim>\<open>parse_switchboard_request\<close> logs its warning and builds the request dict, here the pair
  of the asset pair string and the validity slots; \<^verbatim>\<open>int\<close> raises inside it.
\<close>

definition parse_switchboard_request ::
  "environment_reads \<Rightarrow> logging_state \<Rightarrow> (error + string \<times> int) \<times> logging_state" where
  "parse_switchboard_request env lg =
     (case env_validity_slots env of
        None \<Rightarrow> Inl ValueError
      | Some validity_slots \<Rightarrow> Inr (env_asset_pair env, validity_slots),
      logger_warning ''parse_switchboard_request: NOT IMPLEMENTED'' lg)"

text \<open>
  \<^verbatim>\<open>execute_function\<close>. The statements run in the source's order; an exception of a
  library call or of a stage ends the run with its error.
\<close>

definition execute_function ::
  "environment_reads \<Rightarrow> logging_state \<Rightarrow> (error + FunctionResult) \<times> logging_state" where
  "execute_function env lg =
     (let lg1 = logger_info ''SSO-1 Function execution starting'' lg
      in (case parse_switchboard_request env lg1 of
           (Inl e, lg2) \<Rightarrow> (Inl e, lg2)
         | (Inr (asset_pair_str, validity_slots), lg2) \<Rightarrow>
      (let lg3 = logger_info (''Processing signal for '' @ asset_pair_str) lg2
      in (case env_asset_pair_encoded env of
           None \<Rightarrow> (Inl UnicodeEncodeError, lg3)
         | Some encoded \<Rightarrow>
      (let asset_pair = take 32 (bytes_ljust 32 0 encoded)
      in (case env_model_version env of
           None \<Rightarrow> (Inl ValueError, lg3)
         | Some unhexed \<Rightarrow>
      (let model_version = take 8 unhexed;
          (current_slot, lg4) = get_current_slot lg3;
          lg5 = logger_info (''Current slot: '' @ str_int current_slot) lg4;
          (raw_data, lg6) = fetch_market_data asset_pair_str lg5
      in (case derive_market_context raw_data asset_pair current_slot lg6 of
           (Inl e, lg7) \<Rightarrow> (Inl e, lg7)
         | (Inr market_context, lg7) \<Rightarrow>
      (let lg8 = logger_info ''MarketContext derived'' lg7
      in (case compute_signal_assessment market_context model_version validity_slots lg8 of
           (Inl e, lg9) \<Rightarrow> (Inl e, lg9)
         | (Inr signal_assessment, lg9) \<Rightarrow>
      (let lg10 = logger_info (''SignalAssessment computed: direction=''
                   @ Direction_name (direction signal_assessment)
                   @ '', confidence='' @ str_int (confidence signal_assessment)) lg9
      in (case capture_tee_attestation market_context signal_assessment current_slot lg10 of
           (Inl e, lg11) \<Rightarrow> (Inl e, lg11)
         | (Inr tee_receipt, lg11) \<Rightarrow>
      (let lg12 = logger_info ''TEE attestation captured'' lg11;
          result = \<lparr>market_context = market_context, signal_assessment = signal_assessment,
                     tee_receipt = tee_receipt\<rparr>
      in (Inr result, logger_info ''SSO-1 Function execution complete'' lg12))))))))))))))"
  for env lg asset_pair_str validity_slots asset_pair model_version market_context
    signal_assessment tee_receipt

section \<open>Notions of the spec that the source does not implement\<close>

text \<open>
  The claims speak of the population count of the source bitmap, of the observations that
  survive freshness and outlier filtering, of the canonical serialization and of a
  cryptographic hash. None of them is computed anywhere in the source; each is defined
  here from the spec's words, to state the claims against the code above.
\<close>

subsection \<open>Population count\<close>

text \<open>
  Modelled from the spec: \<open>popcount\<close> of its section 3 invariant, the number of one bits of a
  non-negative integer (the source has no such function).
\<close>

function popcount :: "int \<Rightarrow> nat" where
  "popcount x = (if x \<le> 0 then 0 else nat (x mod 2) + popcount (x div 2))"
  by pat_completeness auto
termination
  by (relation "measure nat") auto

declare popcount.simps [simp del]

subsection \<open>Freshness and outlier filtering\<close>

text \<open>
  Modelled from the spec: the filters of its section 4.1 (the source has no filter). An
  observation is read off the raw data as the source id, the price and the observation
  slot at one position of the lists under \<^verbatim>\<open>sources\<close>, \<^verbatim>\<open>prices\<close> and \<^verbatim>\<open>timestamps\<close>.
  The freshness filter discards an observation older than \<open>max_age\<close> slots relative to the
  current slot; outlier rejection then discards an observation whose price deviates from
  the median of the fresh observations by more than \<open>max_deviation_pct\<close> percent.
\<close>

type_synonym observation = "int \<times> int \<times> int"

definition list_at :: "raw_data \<Rightarrow> string \<Rightarrow> int list" where
  "list_at raw k = (case raw k of None \<Rightarrow> [] | Some xs \<Rightarrow> xs)"

definition observations :: "raw_data \<Rightarrow> observation list" where
  "observations raw =
     zip (list_at raw ''sources'') (zip (list_at raw ''prices'') (list_at raw ''timestamps''))"

definition is_fresh :: "int \<Rightarrow> int \<Rightarrow> observation \<Rightarrow> bool" where
  "is_fresh max_age current_slot ob = (current_slot - snd (snd ob) \<le> max_age)"

definition provisional_median :: "int list \<Rightarrow> int" where
  "provisional_median ps = (case drop (length ps div 2) (sort ps) of [] \<Rightarrow> 0 | m # _ \<Rightarrow> m)"

definition within_deviation :: "int \<Rightarrow> int \<Rightarrow> observation \<Rightarrow> bool" where
  "within_deviation max_deviation_pct med ob =
     (\<bar>fst (snd ob) - med\<bar> * 100 \<le> max_deviation_pct * \<bar>med\<bar>)"

definition fresh_observations :: "int \<Rightarrow> int \<Rightarrow> raw_data \<Rightarrow> observation list" where
  "fresh_observations max_age current_slot raw =
     filter (is_fresh max_age current_slot) (observations raw)"

definition surviving_observations :: "int \<Rightarrow> int \<Rightarrow> int \<Rightarrow> raw_data \<Rightarrow> observation list" where
  "surviving_observations max_age max_deviation_pct current_slot raw =
     filter (within_deviation max_deviation_pct
               (provisional_median (map (\<lambda>ob. fst (snd ob)) (fresh_observations max_age current_slot raw))))
       (fresh_observations max_age current_slot raw)"

definition surviving_source_ids :: "int \<Rightarrow> int \<Rightarrow> int \<Rightarrow> raw_data \<Rightarrow> int list" where
  "surviving_source_ids max_age max_deviation_pct current_slot raw =
     remdups (map fst (surviving_observations max_age max_deviation_pct current_slot raw))"

subsection \<open>Canonical serialization\<close>

text \<open>
  Modelled from the spec: the serialized record of its section 6 (the source serializes
  nothing): fixed field order and width, little-endian integers. An integer field of
  width n bytes holds the value modulo \<open>256 ^ n\<close>; an enum is its integer value; a byte
  field of width n holds the first n bytes of the value, padded with zero bytes when the
  value is shorter, as the source normalizes the asset pair.
\<close>

definition fixed_width :: "nat \<Rightarrow> bytes \<Rightarrow> bytes" where
  "fixed_width n b = take n (bytes_ljust n 0 b)"

definition u8 :: "int \<Rightarrow> bytes" where
  "u8 x = [word_of_int x]"

definition u32 :: "int \<Rightarrow> bytes" where
  "u32 x = map (\<lambda>i. ucast (drop_bit i (word_of_int x :: 32 word))) [0, 8, 16, 24]"

definition u64 :: "int \<Rightarrow> bytes" where
  "u64 x = map (\<lambda>i. ucast (drop_bit i (word_of_int x :: 64 word))) [0, 8, 16, 24, 32, 40, 48, 56]"

definition serialize_market_context :: "MarketContext \<Rightarrow> bytes" where
  "serialize_market_context c =
     u64 (slot c) @ fixed_width 32 (asset_pair c) @ u64 (price c) @ u64 (volume_24h c) @ u64 (volatility_1h c)
       @ u64 (liquidity_depth c) @ u32 (source_bitmap c) @ u8 (source_count c)"

definition serialize_signal_assessment :: "SignalAssessment \<Rightarrow> bytes" where
  "serialize_signal_assessment a =
     u8 (SignalType_value (signal_type a)) @ u8 (Direction_value (direction a))
       @ u8 (magnitude a) @ u8 (confidence a)
       @ u64 (valid_from_slot a) @ u64 (valid_until_slot a) @ fixed_width 8 (model_version a)"

definition canonical_serialization :: "MarketContext \<Rightarrow> SignalAssessment \<Rightarrow> bytes" where
  "canonical_serialization c a = serialize_market_context c @ serialize_signal_assessment a"

subsection \<open>The hash\<close>

text \<open>
  Modelled from the spec: the cryptographic hash of its section 4.3. The source calls no
  hash function; the comment of the field \<^verbatim>\<open>attestation_hash\<close> of \<^verbatim>\<open>TeeReceipt\<close> names
  SHA-256, which is the function defined here (FIPS 180-4) on byte lists. The round
  constants are the first 32 bits of the fractional parts of the cube roots of the first
  64 primes, the initial state those of the square roots of the first 8 primes.
\<close>

definition sha256_round_constants :: "32 word list" where
  "sha256_round_constants = [
     1116352408, 1899447441, 3049323471, 3921009573, 961987163, 1508970993,
     2453635748, 2870763221, 3624381080, 310598401, 607225278, 1426881987,
     1925078388, 2162078206, 2614888103, 3248222580, 3835390401, 4022224774,
     264347078, 604807628, 770255983, 1249150122, 1555081692, 1996064986,
     2554220882, 2821834349, 2952996808, 3210313671, 3336571891, 3584528711,
     113926993, 338241895, 666307205, 773529912, 1294757372, 1396182291,
     1695183700, 1986661051, 2177026350, 2456956037, 2730485921, 2820302411,
     3259730800, 3345764771, 3516065817, 3600352804, 4094571909, 275423344,
     430227734, 506948616, 659060556, 883997877, 958139571, 1322822218,
     1537002063, 1747873779, 1955562222, 2024104815, 2227730452, 2361852424,
     2428436474, 2756734187, 3204031479, 3329325298]"

definition sha256_initial_state :: "32 word list" where
  "sha256_initial_state = [
     1779033703, 3144134277, 1013904242, 2773480762,
     1359893119, 2600822924, 528734635, 1541459225]"

definition rotr :: "nat \<Rightarrow> 32 word \<Rightarrow> 32 word" where
  "rotr n x = drop_bit n x OR push_bit (32 - n) x"

definition ch :: "32 word \<Rightarrow> 32 word \<Rightarrow> 32 word \<Rightarrow> 32 word" where
  "ch x y z = (x AND y) XOR (NOT x AND z)"

definition maj :: "32 word \<Rightarrow> 32 word \<Rightarrow> 32 word \<Rightarrow> 32 word" where
  "maj x y z = (x AND y) XOR (x AND z) XOR (y AND z)"

definition big_sigma0 :: "32 word \<Rightarrow> 32 word" where
  "big_sigma0 x = rotr 2 x XOR rotr 13 x XOR rotr 22 x"

definition big_sigma1 :: "32 word \<Rightarrow> 32 word" where
  "big_sigma1 x = rotr 6 x XOR rotr 11 x XOR rotr 25 x"

definition small_sigma0 :: "32 word \<Rightarrow> 32 word" where
  "small_sigma0 x = rotr 7 x XOR rotr 18 x XOR drop_bit 3 x"

definition small_sigma1 :: "32 word \<Rightarrow> 32 word" where
  "small_sigma1 x = rotr 17 x XOR rotr 19 x XOR drop_bit 10 x"

text \<open>The big-endian 32-bit words of a byte list whose length is a multiple of four.\<close>

fun be_words :: "bytes \<Rightarrow> 32 word list" where
  "be_words (a # b # c # d # r) =
     (push_bit 24 (ucast a) OR push_bit 16 (ucast b) OR push_bit 8 (ucast c) OR ucast d)
       # be_words r"
| "be_words r = []"

definition be_u64 :: "64 word \<Rightarrow> bytes" where
  "be_u64 w = map (\<lambda>i. ucast (drop_bit i w)) [56, 48, 40, 32, 24, 16, 8, 0]"

definition be_u32 :: "32 word \<Rightarrow> bytes" where
  "be_u32 w = map (\<lambda>i. ucast (drop_bit i w)) [24, 16, 8, 0]"

text \<open>
  Padding: the byte 128, zero bytes up to 56 modulo 64, and the length of the message in
  bits as a big-endian 64-bit integer.
\<close>

definition sha256_pad :: "bytes \<Rightarrow> bytes" where
  "sha256_pad m =
     m @ [128] @ replicate ((119 - length m mod 64) mod 64) 0 @ be_u64 (of_nat (8 * length m))"

text \<open>The message schedule grows a block of 16 words by \<open>n\<close> words.\<close>

fun sha256_schedule :: "nat \<Rightarrow> 32 word list \<Rightarrow> 32 word list" where
  "sha256_schedule 0 w = w"
| "sha256_schedule (Suc n) w =
     sha256_schedule n
       (w @ [small_sigma1 (w ! (length w - 2)) + w ! (length w - 7)
               + small_sigma0 (w ! (length w - 15)) + w ! (length w - 16)])"

definition sha256_shift :: "32 word list \<Rightarrow> 32 word \<Rightarrow> 32 word \<Rightarrow> 32 word list" where
  "sha256_shift s t1 t2 = [t1 + t2, s ! 0, s ! 1, s ! 2, s ! 3 + t1, s ! 4, s ! 5, s ! 6]"

definition sha256_round :: "32 word list \<Rightarrow> 32 word \<times> 32 word \<Rightarrow> 32 word list" where
  "sha256_round s kw =
     sha256_shift s
       (s ! 7 + big_sigma1 (s ! 4) + ch (s ! 4) (s ! 5) (s ! 6) + fst kw + snd kw)
       (big_sigma0 (s ! 0) + maj (s ! 0) (s ! 1) (s ! 2))"

definition sha256_compress :: "32 word list \<Rightarrow> 32 word list \<Rightarrow> 32 word list" where
  "sha256_compress h blk =
     map2 (+) h (foldl sha256_round h (zip sha256_round_constants (sha256_schedule 48 blk)))"

fun sha256_blocks :: "nat \<Rightarrow> 32 word list \<Rightarrow> 32 word list list" where
  "sha256_blocks 0 ws = []"
| "sha256_blocks (Suc n) ws = take 16 ws # sha256_blocks n (drop 16 ws)"

definition sha256 :: "bytes \<Rightarrow> bytes" where
  "sha256 m =
     concat (map be_u32
       (foldl sha256_compress sha256_initial_state
          (sha256_blocks (length (sha256_pad m) div 64) (be_words (sha256_pad m)))))"

section \<open>Properties of the scoring module\<close>

lemma logger_warning_handled:
  "logger_warning msg lg =
     (if level lg \<le> 30 then lg\<lparr>handled := handled lg @ [(30, msg)]\<rparr> else lg)"
  by (simp add: logger_warning_def logger_log_def WARNING_def)

lemma score_market_context_result:
  "fst (score_market_context s p v vol ld sc cfg lg) =
     \<lparr>ScoringResult.signal_type = MOMENTUM, direction = NEUTRAL, magnitude = 50, confidence = 0\<rparr>"
  by (simp add: score_market_context_def determine_signal_type_def compute_direction_def
      compute_magnitude_def compute_confidence_def)

text \<open>
  C3. Whenever the source count is below \<open>min_sources_for_confidence\<close> or the liquidity
  depth is below \<open>min_liquidity_depth\<close>, the confidence computed by the scoring engine is
  exactly zero, whatever the other inputs are: both the value \<open>compute_confidence\<close> returns
  and the confidence field of the result of \<open>score_market_context\<close>.
\<close>

theorem confidence_hard_gated:
  assumes "sc < min_sources_for_confidence cfg \<or> ld < min_liquidity_depth cfg"
  shows "fst (compute_confidence sc ld vol cfg lg) = 0
    \<and> ScoringResult.confidence (fst (score_market_context s p v vol ld sc (Some cfg) lg)) = 0"
  by (simp add: compute_confidence_def score_market_context_result)

theorem confidence_hard_gated_witness:
  "((2::int) < min_sources_for_confidence ScoringConfig_default
      \<or> (500000::int) < min_liquidity_depth ScoringConfig_default)
    \<and> fst (compute_confidence 2 500000 10 ScoringConfig_default \<lparr>level = 30, handled = []\<rparr>) = 0
    \<and> ScoringResult.confidence (fst (score_market_context 7 1000000000 1000000 10 500000 2
          (Some ScoringConfig_default) \<lparr>level = 30, handled = []\<rparr>)) = 0"
proof -
  have h: "(2::int) < min_sources_for_confidence ScoringConfig_default
      \<or> (500000::int) < min_liquidity_depth ScoringConfig_default"
    by (simp add: ScoringConfig_default_def)
  from confidence_hard_gated [OF h, of 10 "\<lparr>level = 30, handled = []\<rparr>" 7 1000000000 1000000] h
  show ?thesis by simp
qed

text \<open>
  C9. For every input the magnitude and the confidence the scoring engine produces lie in
  the closed interval from 0 to 100, and the direction is one of NEUTRAL, LONG and SHORT:
  for the three sub-computations and for the fields of the result of
  \<open>score_market_context\<close>.
\<close>

theorem scoring_outputs_in_range:
  "0 \<le> fst (compute_magnitude p v vol d cfg lg) \<and> fst (compute_magnitude p v vol d cfg lg) \<le> 100
   \<and> 0 \<le> fst (compute_confidence sc ld vol cfg lg) \<and> fst (compute_confidence sc ld vol cfg lg) \<le> 100
   \<and> fst (compute_direction p v vol ty lg) \<in> {NEUTRAL, LONG, SHORT}
   \<and> 0 \<le> ScoringResult.magnitude (fst (score_market_context s p v vol ld sc ocfg lg))
   \<and> ScoringResult.magnitude (fst (score_market_context s p v vol ld sc ocfg lg)) \<le> 100
   \<and> 0 \<le> ScoringResult.confidence (fst (score_market_context s p v vol ld sc ocfg lg))
   \<and> ScoringResult.confidence (fst (score_market_context s p v vol ld sc ocfg lg)) \<le> 100
   \<and> ScoringResult.direction (fst (score_market_context s p v vol ld sc ocfg lg))
        \<in> {NEUTRAL, LONG, SHORT}"
  by (simp add: compute_magnitude_def compute_confidence_def compute_direction_def
      score_market_context_result)

theorem scoring_outputs_in_range_witness:
  "fst (compute_magnitude 1000000000 1000000 10 LONG ScoringConfig_default \<lparr>level = 30, handled = []\<rparr>) \<le> 100
   \<and> 0 \<le> fst (compute_magnitude 1000000000 1000000 10 LONG ScoringConfig_default \<lparr>level = 30, handled = []\<rparr>)
   \<and> fst (compute_direction 1000000000 1000000 10 MEAN_REVERSION \<lparr>level = 30, handled = []\<rparr>)
        \<in> {NEUTRAL, LONG, SHORT}"
  using scoring_outputs_in_range [of 1000000000 1000000 10 LONG ScoringConfig_default
      "\<lparr>level = 30, handled = []\<rparr>" 5 500000 MEAN_REVERSION 7 None]
  by simp

text \<open>
  C10. For every input tuple (slot, price, volume_24h, volatility_1h, liquidity_depth,
  source_count) and every configuration, also the default one used when none is supplied,
  \<open>score_market_context\<close> returns exactly the result with signal type MOMENTUM, direction
  NEUTRAL, magnitude 50 and confidence 0: the scoring output does not depend on the market
  inputs.
\<close>

theorem score_market_context_constant:
  "fst (score_market_context s p v vol ld sc (Some cfg) lg) =
     \<lparr>ScoringResult.signal_type = MOMENTUM, direction = NEUTRAL, magnitude = 50, confidence = 0\<rparr>
   \<and> fst (score_market_context s p v vol ld sc None lg) =
     \<lparr>ScoringResult.signal_type = MOMENTUM, direction = NEUTRAL, magnitude = 50, confidence = 0\<rparr>"
  by (simp add: score_market_context_result)

theorem score_market_context_constant_witness:
  "fst (score_market_context 7 1000000000 1000000 10 500000 5 None \<lparr>level = 30, handled = []\<rparr>) =
     \<lparr>ScoringResult.signal_type = MOMENTUM, direction = NEUTRAL, magnitude = 50, confidence = 0\<rparr>
   \<and> fst (score_market_context 7 1000000000 1000000 10 500000 5 (Some ScoringConfig_default)
        \<lparr>level = 30, handled = []\<rparr>) =
     \<lparr>ScoringResult.signal_type = MOMENTUM, direction = NEUTRAL, magnitude = 50, confidence = 0\<rparr>"
  using score_market_context_constant [of 7 1000000000 1000000 10 500000 5 ScoringConfig_default
      "\<lparr>level = 30, handled = []\<rparr>"]
  by simp

section \<open>Properties of the pipeline stages\<close>

lemma derive_market_context_result:
  "fst (derive_market_context raw pair s lg) =
     Inr \<lparr>slot = s, asset_pair = pair, price = 0, volume_24h = 0, volatility_1h = 0,
          liquidity_depth = 0, source_bitmap = 0, source_count = 0\<rparr>"
  by (simp add: derive_market_context_def)

lemma compute_signal_assessment_result:
  "fst (compute_signal_assessment c mv v lg) =
     Inr \<lparr>signal_type = MOMENTUM, direction = NEUTRAL, magnitude = 50, confidence = 0,
          valid_from_slot = slot c, valid_until_slot = slot c + v, model_version = mv\<rparr>"
  by (simp add: compute_signal_assessment_def Let_def)

lemma capture_tee_attestation_result:
  "fst (capture_tee_attestation c a s lg) =
     Inr \<lparr>enclave_signer = zero_bytes 32, attestation_hash = zero_bytes 32,
          mr_enclave = zero_bytes 32, timestamp_slot = s, platform_version = 0\<rparr>"
  by (simp add: capture_tee_attestation_def)

lemma execute_function_result:
  "fst (execute_function env lg) =
     (case env_validity_slots env of
        None \<Rightarrow> Inl ValueError
      | Some n \<Rightarrow>
          (case env_asset_pair_encoded env of
             None \<Rightarrow> Inl UnicodeEncodeError
           | Some b \<Rightarrow>
               (case env_model_version env of
                  None \<Rightarrow> Inl ValueError
                | Some mv \<Rightarrow>
                    Inr \<lparr>market_context =
                           \<lparr>slot = 0, asset_pair = take 32 (bytes_ljust 32 0 b), price = 0,
                            volume_24h = 0, volatility_1h = 0, liquidity_depth = 0,
                            source_bitmap = 0, source_count = 0\<rparr>,
                         signal_assessment =
                           \<lparr>signal_type = MOMENTUM, direction = NEUTRAL, magnitude = 50,
                            confidence = 0, valid_from_slot = 0, valid_until_slot = n,
                            model_version = take 8 mv\<rparr>,
                         tee_receipt =
                           \<lparr>enclave_signer = zero_bytes 32, attestation_hash = zero_bytes 32,
                            mr_enclave = zero_bytes 32, timestamp_slot = 0,
                            platform_version = 0\<rparr>\<rparr>)))"
  by (simp add: execute_function_def parse_switchboard_request_def get_current_slot_def
      fetch_market_data_def derive_market_context_def compute_signal_assessment_def
      capture_tee_attestation_def Let_def split: option.splits)

text \<open>
  A run with \<^verbatim>\<open>MODEL_VERSION=zz\<close> in the environment and the other variables unset:
  \<^verbatim>\<open>bytes.fromhex\<close> raises, and the run ends with \<^verbatim>\<open>ValueError\<close> before any stage.
\<close>

lemma execute_function_bad_model_version:
  "fst (execute_function
          \<lparr>env_asset_pair = ''SOL/USDC'', env_validity_slots = Some 25,
           env_asset_pair_encoded = Some [83, 79, 76, 47, 85, 83, 68, 67],
           env_model_version = None\<rparr> lg) = Inl ValueError"
  by (simp add: execute_function_result)

text \<open>The canonical serialization has 105 bytes, whatever the lengths of the byte fields.\<close>

lemma length_fixed_width: "length (fixed_width n b) = n"
  by (simp add: fixed_width_def bytes_ljust_def)

lemma length_canonical_serialization: "length (canonical_serialization c a) = 105"
  by (simp add: canonical_serialization_def serialize_market_context_def
      serialize_signal_assessment_def length_fixed_width u8_def u32_def u64_def)

lemma popcount_zero: "popcount 0 = 0"
  by (simp add: popcount.simps)

text \<open>The model of SHA-256 on the test vector \<^verbatim>\<open>abc\<close> of FIPS 180-4.\<close>

lemma sha256_abc:
  "sha256 [97, 98, 99] =
     [186, 120, 22, 191, 143, 1, 207, 234, 65, 65, 64, 222, 93, 174, 34, 35,
      176, 3, 97, 163, 150, 23, 122, 156, 180, 16, 255, 97, 242, 0, 21, 173]"
  by code_simp

text \<open>
  C1 as stated fails: the attestation hash of the receipt is not the hash of the canonical
  serialization. At the context and the assessment that the pipeline itself produces for
  the asset pair \<^verbatim>\<open>SOL/USDC\<close>, 25 validity slots and model version 00000001, the receipt
  holds 32 zero bytes, and SHA-256 of the 105 bytes of the canonical serialization is the
  digest below.
\<close>

theorem attestation_hash_counterexample:
  "fst (capture_tee_attestation
          \<lparr>slot = 0, asset_pair = normalize_asset_pair ''SOL/USDC'', price = 0, volume_24h = 0,
           volatility_1h = 0, liquidity_depth = 0, source_bitmap = 0, source_count = 0\<rparr>
          \<lparr>signal_type = MOMENTUM, direction = NEUTRAL, magnitude = 50, confidence = 0,
           valid_from_slot = 0, valid_until_slot = 25, model_version = [0, 0, 0, 1, 0, 0, 0, 0]\<rparr>
          0 \<lparr>level = 20, handled = []\<rparr>) =
     Inr \<lparr>enclave_signer = zero_bytes 32, attestation_hash = zero_bytes 32,
          mr_enclave = zero_bytes 32, timestamp_slot = 0, platform_version = 0\<rparr>
   \<and> sha256 (canonical_serialization
          \<lparr>slot = 0, asset_pair = normalize_asset_pair ''SOL/USDC'', price = 0, volume_24h = 0,
           volatility_1h = 0, liquidity_depth = 0, source_bitmap = 0, source_count = 0\<rparr>
          \<lparr>signal_type = MOMENTUM, direction = NEUTRAL, magnitude = 50, confidence = 0,
           valid_from_slot = 0, valid_until_slot = 25, model_version = [0, 0, 0, 1, 0, 0, 0, 0]\<rparr>) =
     [218, 158, 220, 27, 156, 60, 63, 235, 97, 143, 174, 238, 69, 65, 104, 119,
      219, 100, 55, 126, 101, 100, 24, 252, 146, 42, 229, 164, 126, 109, 207, 20]
   \<and> zero_bytes 32 \<noteq>
     [218, 158, 220, 27, 156, 60, 63, 235, 97, 143, 174, 238, 69, 65, 104, 119,
      219, 100, 55, 126, 101, 100, 24, 252, 146, 42, 229, 164, 126, 109, 207, 20]"
proof (intro conjI)
  show "sha256 (canonical_serialization
          \<lparr>slot = 0, asset_pair = normalize_asset_pair ''SOL/USDC'', price = 0, volume_24h = 0,
           volatility_1h = 0, liquidity_depth = 0, source_bitmap = 0, source_count = 0\<rparr>
          \<lparr>signal_type = MOMENTUM, direction = NEUTRAL, magnitude = 50, confidence = 0,
           valid_from_slot = 0, valid_until_slot = 25, model_version = [0, 0, 0, 1, 0, 0, 0, 0]\<rparr>) =
     [218, 158, 220, 27, 156, 60, 63, 235, 97, 143, 174, 238, 69, 65, 104, 119,
      219, 100, 55, 126, 101, 100, 24, 252, 146, 42, 229, 164, 126, 109, 207, 20]"
    by code_simp
next
  show "zero_bytes 32 \<noteq>
     [218, 158, 220, 27, 156, 60, 63, 235, 97, 143, 174, 238, 69, 65, 104, 119,
      219, 100, 55, 126, 101, 100, 24, 252, 146, 42, 229, 164, 126, 109, 207, 20]"
    by code_simp
qed (simp add: capture_tee_attestation_def)

text \<open>
  C1, amended. For every MarketContext and SignalAssessment pair passed to the attestation
  capture operation, the attestation hash of the returned TeeReceipt is 32 zero bytes, the
  same for every pair; so recomputing the hash from the canonical serialization of the
  pair yields the stored value only for a pair whose serialization hashes to 32 zero
  bytes.
\<close>

theorem attestation_hash_constant:
  "\<exists>r r'. fst (capture_tee_attestation c a s lg) = Inr r
     \<and> fst (capture_tee_attestation c' a' s' lg') = Inr r'
     \<and> attestation_hash r = zero_bytes 32
     \<and> attestation_hash r' = attestation_hash r
     \<and> (sha256 (canonical_serialization c a) = attestation_hash r
          \<longleftrightarrow> sha256 (canonical_serialization c a) = zero_bytes 32)"
  by (simp add: capture_tee_attestation_result)

theorem attestation_hash_constant_witness:
  "\<exists>r r'. fst (capture_tee_attestation
          \<lparr>slot = 7, asset_pair = normalize_asset_pair ''SOL/USDC'', price = 1000000000,
           volume_24h = 1000000, volatility_1h = 10, liquidity_depth = 500000,
           source_bitmap = 31, source_count = 5\<rparr>
          \<lparr>signal_type = MOMENTUM, direction = LONG, magnitude = 50, confidence = 80,
           valid_from_slot = 7, valid_until_slot = 32, model_version = [0, 0, 0, 1, 0, 0, 0, 0]\<rparr>
          7 \<lparr>level = 20, handled = []\<rparr>) = Inr r
     \<and> fst (capture_tee_attestation
          \<lparr>slot = 8, asset_pair = normalize_asset_pair ''BTC/USDC'', price = 5, volume_24h = 6,
           volatility_1h = 7, liquidity_depth = 8, source_bitmap = 1, source_count = 1\<rparr>
          \<lparr>signal_type = VOLATILITY, direction = SHORT, magnitude = 10, confidence = 20,
           valid_from_slot = 8, valid_until_slot = 9, model_version = [0, 0, 0, 2, 0, 0, 0, 0]\<rparr>
          8 \<lparr>level = 30, handled = []\<rparr>) = Inr r'
     \<and> attestation_hash r = zero_bytes 32
     \<and> attestation_hash r' = attestation_hash r"
  using attestation_hash_constant [of
      "\<lparr>slot = 7, asset_pair = normalize_asset_pair ''SOL/USDC'', price = 1000000000,
        volume_24h = 1000000, volatility_1h = 10, liquidity_depth = 500000,
        source_bitmap = 31, source_count = 5\<rparr>"
      "\<lparr>signal_type = MOMENTUM, direction = LONG, magnitude = 50, confidence = 80,
        valid_from_slot = 7, valid_until_slot = 32, model_version = [0, 0, 0, 1, 0, 0, 0, 0]\<rparr>"
      7 "\<lparr>level = 20, handled = []\<rparr>"
      "\<lparr>slot = 8, asset_pair = normalize_asset_pair ''BTC/USDC'', price = 5, volume_24h = 6,
        volatility_1h = 7, liquidity_depth = 8, source_bitmap = 1, source_count = 1\<rparr>"
      "\<lparr>signal_type = VOLATILITY, direction = SHORT, magnitude = 10, confidence = 20,
        valid_from_slot = 8, valid_until_slot = 9, model_version = [0, 0, 0, 2, 0, 0, 0, 0]\<rparr>"
      8 "\<lparr>level = 30, handled = []\<rparr>"]
  by blast

text \<open>
  C2 as stated fails: the window is not clamped. With the default configuration
  (\<open>max_validity_slots = 100\<close>) and a request of 500 slots at slot 1000 the claim gives
  \<open>valid_until_slot = 1000 + min 500 100 = 1100\<close>; the code returns 1500, a window of 500
  slots.
\<close>

theorem validity_window_counterexample:
  "fst (compute_signal_assessment
          \<lparr>slot = 1000, asset_pair = normalize_asset_pair ''SOL/USDC'', price = 0, volume_24h = 0,
           volatility_1h = 0, liquidity_depth = 0, source_bitmap = 0, source_count = 0\<rparr>
          [0, 0, 0, 1, 0, 0, 0, 0] 500 \<lparr>level = 20, handled = []\<rparr>) =
     Inr \<lparr>signal_type = MOMENTUM, direction = NEUTRAL, magnitude = 50, confidence = 0,
          valid_from_slot = 1000, valid_until_slot = 1500, model_version = [0, 0, 0, 1, 0, 0, 0, 0]\<rparr>
   \<and> (1000::int) + min 500 (max_validity_slots ScoringConfig_default) = 1100"
  by (simp add: compute_signal_assessment_def ScoringConfig_default_def)

text \<open>
  C2, amended. For every requested validity window length greater than zero, the
  SignalAssessment produced by the scoring operation has \<open>valid_from_slot\<close> equal to the
  current slot and \<open>valid_until_slot\<close> equal to the current slot plus the requested length,
  without clamping; so \<open>valid_from_slot \<le> valid_until_slot\<close> and the window length is the
  requested length. It is the current slot plus the minimum of the requested length and
  \<open>max_validity_slots\<close>, and the window at most \<open>max_validity_slots\<close>, when the requested
  length does not exceed \<open>max_validity_slots\<close>.
\<close>

theorem validity_window_unclamped:
  assumes "0 < v"
  shows "\<exists>a. fst (compute_signal_assessment c mv v lg) = Inr a
     \<and> valid_from_slot a = slot c
     \<and> valid_until_slot a = slot c + v
     \<and> valid_from_slot a \<le> valid_until_slot a
     \<and> valid_until_slot a - valid_from_slot a = v
     \<and> (v \<le> max_validity_slots cfg \<longrightarrow>
            valid_until_slot a = slot c + min v (max_validity_slots cfg)
          \<and> valid_until_slot a - valid_from_slot a \<le> max_validity_slots cfg)"
  using assms by (simp add: compute_signal_assessment_result)

theorem validity_window_unclamped_witness:
  "(0::int) < 25 \<and> (25::int) \<le> max_validity_slots ScoringConfig_default
   \<and> fst (compute_signal_assessment
          \<lparr>slot = 1000, asset_pair = normalize_asset_pair ''SOL/USDC'', price = 0, volume_24h = 0,
           volatility_1h = 0, liquidity_depth = 0, source_bitmap = 0, source_count = 0\<rparr>
          [0, 0, 0, 1, 0, 0, 0, 0] 25 \<lparr>level = 20, handled = []\<rparr>) =
     Inr \<lparr>signal_type = MOMENTUM, direction = NEUTRAL, magnitude = 50, confidence = 0,
          valid_from_slot = 1000, valid_until_slot = 1025, model_version = [0, 0, 0, 1, 0, 0, 0, 0]\<rparr>
   \<and> (1025::int) = 1000 + min 25 (max_validity_slots ScoringConfig_default)"
proof -
  have h: "(0::int) < 25" by simp
  from validity_window_unclamped [OF h, of
      "\<lparr>slot = 1000, asset_pair = normalize_asset_pair ''SOL/USDC'', price = 0, volume_24h = 0,
        volatility_1h = 0, liquidity_depth = 0, source_bitmap = 0, source_count = 0\<rparr>"
      "[0, 0, 0, 1, 0, 0, 0, 0]" "\<lparr>level = 20, handled = []\<rparr>" ScoringConfig_default]
  obtain a where a:
    "fst (compute_signal_assessment
          \<lparr>slot = 1000, asset_pair = normalize_asset_pair ''SOL/USDC'', price = 0, volume_24h = 0,
           volatility_1h = 0, liquidity_depth = 0, source_bitmap = 0, source_count = 0\<rparr>
          [0, 0, 0, 1, 0, 0, 0, 0] 25 \<lparr>level = 20, handled = []\<rparr>) = Inr a"
    "valid_until_slot a = 1000 + 25"
    by auto
  then show ?thesis
    by (simp add: compute_signal_assessment_def ScoringConfig_default_def)
qed

text \<open>
  C6 as stated fails: a requested validity of \<open>- 5\<close> slots at slot 1000 does not fail with
  InvalidValidityWindow; the operation returns a SignalAssessment whose window ends at slot
  995, before it starts.
\<close>

theorem invalid_validity_window_counterexample:
  "fst (compute_signal_assessment
          \<lparr>slot = 1000, asset_pair = normalize_asset_pair ''SOL/USDC'', price = 0, volume_24h = 0,
           volatility_1h = 0, liquidity_depth = 0, source_bitmap = 0, source_count = 0\<rparr>
          [0, 0, 0, 1, 0, 0, 0, 0] (- 5) \<lparr>level = 20, handled = []\<rparr>) =
     Inr \<lparr>signal_type = MOMENTUM, direction = NEUTRAL, magnitude = 50, confidence = 0,
          valid_from_slot = 1000, valid_until_slot = 995, model_version = [0, 0, 0, 1, 0, 0, 0, 0]\<rparr>
   \<and> fst (compute_signal_assessment
          \<lparr>slot = 1000, asset_pair = normalize_asset_pair ''SOL/USDC'', price = 0, volume_24h = 0,
           volatility_1h = 0, liquidity_depth = 0, source_bitmap = 0, source_count = 0\<rparr>
          [0, 0, 0, 1, 0, 0, 0, 0] (- 5) \<lparr>level = 20, handled = []\<rparr>) \<noteq> Inl InvalidValidityWindow"
  by (simp add: compute_signal_assessment_def)

text \<open>
  C6, amended. For every requested validity window length less than or equal to zero, the
  scoring operation does not fail with InvalidValidityWindow: it returns a SignalAssessment
  with \<open>valid_from_slot\<close> the current slot and \<open>valid_until_slot\<close> the current slot plus the
  requested length, which is not after \<open>valid_from_slot\<close>.
\<close>

theorem invalid_validity_window_accepted:
  assumes "v \<le> 0"
  shows "fst (compute_signal_assessment c mv v lg) \<noteq> Inl InvalidValidityWindow
     \<and> (\<exists>a. fst (compute_signal_assessment c mv v lg) = Inr a
          \<and> valid_from_slot a = slot c
          \<and> valid_until_slot a = slot c + v
          \<and> valid_until_slot a \<le> valid_from_slot a)"
  using assms by (simp add: compute_signal_assessment_result)

theorem invalid_validity_window_accepted_witness:
  "(0::int) \<le> 0
   \<and> fst (compute_signal_assessment
          \<lparr>slot = 1000, asset_pair = normalize_asset_pair ''SOL/USDC'', price = 0, volume_24h = 0,
           volatility_1h = 0, liquidity_depth = 0, source_bitmap = 0, source_count = 0\<rparr>
          [0, 0, 0, 1, 0, 0, 0, 0] 0 \<lparr>level = 20, handled = []\<rparr>) \<noteq> Inl InvalidValidityWindow"
proof -
  have h: "(0::int) \<le> 0" by simp
  from invalid_validity_window_accepted [OF h, of
      "\<lparr>slot = 1000, asset_pair = normalize_asset_pair ''SOL/USDC'', price = 0, volume_24h = 0,
        volatility_1h = 0, liquidity_depth = 0, source_bitmap = 0, source_count = 0\<rparr>"
      "[0, 0, 0, 1, 0, 0, 0, 0]" "\<lparr>level = 20, handled = []\<rparr>"]
  show ?thesis by simp
qed

text \<open>
  C4 as stated fails: the Context Builder returns a MarketContext where the claim demands
  a failure. First input: two sources (ids 0 and 1) report at the current slot 100 with the
  same price, so both survive even the strictest filters (age 0, deviation 0 percent), and
  two is fewer than a minimum of three sources; the claim demands InsufficientSources.
  Second input: the only two observations are 100 slots old and fail a freshness filter of
  10 slots; the claim demands StaleData. In both cases the code returns the placeholder
  context.
\<close>

theorem context_builder_failure_counterexample:
  "length (surviving_observations 0 0 100
       [''sources'' \<mapsto> [0, 1], ''prices'' \<mapsto> [1000000000, 1000000000],
        ''volumes'' \<mapsto> [500000, 500000], ''timestamps'' \<mapsto> [100, 100]]) = 2
   \<and> fst (derive_market_context
       [''sources'' \<mapsto> [0, 1], ''prices'' \<mapsto> [1000000000, 1000000000],
        ''volumes'' \<mapsto> [500000, 500000], ''timestamps'' \<mapsto> [100, 100]]
       (normalize_asset_pair ''SOL/USDC'') 100 \<lparr>level = 20, handled = []\<rparr>) =
     Inr \<lparr>slot = 100, asset_pair = normalize_asset_pair ''SOL/USDC'', price = 0, volume_24h = 0,
          volatility_1h = 0, liquidity_depth = 0, source_bitmap = 0, source_count = 0\<rparr>
   \<and> length (observations
       [''sources'' \<mapsto> [0, 1], ''prices'' \<mapsto> [1000000000, 1000000000],
        ''volumes'' \<mapsto> [500000, 500000], ''timestamps'' \<mapsto> [0, 0]]) = 2
   \<and> fresh_observations 10 100
       [''sources'' \<mapsto> [0, 1], ''prices'' \<mapsto> [1000000000, 1000000000],
        ''volumes'' \<mapsto> [500000, 500000], ''timestamps'' \<mapsto> [0, 0]] = []
   \<and> fst (derive_market_context
       [''sources'' \<mapsto> [0, 1], ''prices'' \<mapsto> [1000000000, 1000000000],
        ''volumes'' \<mapsto> [500000, 500000], ''timestamps'' \<mapsto> [0, 0]]
       (normalize_asset_pair ''SOL/USDC'') 100 \<lparr>level = 20, handled = []\<rparr>) =
     Inr \<lparr>slot = 100, asset_pair = normalize_asset_pair ''SOL/USDC'', price = 0, volume_24h = 0,
          volatility_1h = 0, liquidity_depth = 0, source_bitmap = 0, source_count = 0\<rparr>"
proof (intro conjI)
  show "length (surviving_observations 0 0 100
       [''sources'' \<mapsto> [0, 1], ''prices'' \<mapsto> [1000000000, 1000000000],
        ''volumes'' \<mapsto> [500000, 500000], ''timestamps'' \<mapsto> [100, 100]]) = 2"
    by (simp add: surviving_observations_def fresh_observations_def observations_def list_at_def
        is_fresh_def within_deviation_def provisional_median_def)
next
  show "length (observations
       [''sources'' \<mapsto> [0, 1], ''prices'' \<mapsto> [1000000000, 1000000000],
        ''volumes'' \<mapsto> [500000, 500000], ''timestamps'' \<mapsto> [0, 0]]) = 2"
    by (simp add: observations_def list_at_def)
next
  show "fresh_observations 10 100
       [''sources'' \<mapsto> [0, 1], ''prices'' \<mapsto> [1000000000, 1000000000],
        ''volumes'' \<mapsto> [500000, 500000], ''timestamps'' \<mapsto> [0, 0]] = []"
    by (simp add: fresh_observations_def observations_def list_at_def is_fresh_def)
qed (simp_all add: derive_market_context_def)

text \<open>
  C4, amended. For every input collection of per-source observations, the Context Builder
  operation does not fail: it fails neither with InsufficientSources nor with StaleData,
  whatever survives freshness and outlier filtering, and returns the MarketContext that
  has the given slot and asset pair and zero in every other field.
\<close>

theorem context_builder_never_fails:
  "fst (derive_market_context raw pair s lg) \<noteq> Inl InsufficientSources
   \<and> fst (derive_market_context raw pair s lg) \<noteq> Inl StaleData
   \<and> fst (derive_market_context raw pair s lg) =
       Inr \<lparr>slot = s, asset_pair = pair, price = 0, volume_24h = 0, volatility_1h = 0,
            liquidity_depth = 0, source_bitmap = 0, source_count = 0\<rparr>"
  by (simp add: derive_market_context_result)

theorem context_builder_never_fails_witness:
  "fst (derive_market_context
       [''sources'' \<mapsto> [], ''prices'' \<mapsto> [], ''volumes'' \<mapsto> [], ''timestamps'' \<mapsto> []]
       (normalize_asset_pair ''SOL/USDC'') 0 \<lparr>level = 20, handled = []\<rparr>) \<noteq> Inl InsufficientSources
   \<and> fst (derive_market_context
       [''sources'' \<mapsto> [], ''prices'' \<mapsto> [], ''volumes'' \<mapsto> [], ''timestamps'' \<mapsto> []]
       (normalize_asset_pair ''SOL/USDC'') 0 \<lparr>level = 20, handled = []\<rparr>) \<noteq> Inl StaleData"
  using context_builder_never_fails [of
      "[''sources'' \<mapsto> [], ''prices'' \<mapsto> [], ''volumes'' \<mapsto> [], ''timestamps'' \<mapsto> []]"
      "normalize_asset_pair ''SOL/USDC''" 0 "\<lparr>level = 20, handled = []\<rparr>"]
  by simp

text \<open>
  C8 as stated fails in its second half: three sources (ids 0, 1 and 4) report at the
  current slot 100 with the same price and survive even the strictest filters (age 0,
  deviation 0 percent), but the bitmap of the MarketContext is 0: no bit is set for any of
  them, and the source count is 0, not 3.
\<close>

theorem source_bitmap_counterexample:
  "surviving_source_ids 0 0 100
       [''sources'' \<mapsto> [0, 1, 4], ''prices'' \<mapsto> [1000000000, 1000000000, 1000000000],
        ''volumes'' \<mapsto> [200000, 300000, 500000], ''timestamps'' \<mapsto> [100, 100, 100]] = [0, 1, 4]
   \<and> fst (derive_market_context
       [''sources'' \<mapsto> [0, 1, 4], ''prices'' \<mapsto> [1000000000, 1000000000, 1000000000],
        ''volumes'' \<mapsto> [200000, 300000, 500000], ''timestamps'' \<mapsto> [100, 100, 100]]
       (normalize_asset_pair ''SOL/USDC'') 100 \<lparr>level = 20, handled = []\<rparr>) =
     Inr \<lparr>slot = 100, asset_pair = normalize_asset_pair ''SOL/USDC'', price = 0, volume_24h = 0,
          volatility_1h = 0, liquidity_depth = 0, source_bitmap = 0, source_count = 0\<rparr>
   \<and> popcount 0 \<noteq> length [0, 1, 4 :: int]
   \<and> \<not> bit (0 :: int) 4"
proof (intro conjI)
  show "surviving_source_ids 0 0 100
       [''sources'' \<mapsto> [0, 1, 4], ''prices'' \<mapsto> [1000000000, 1000000000, 1000000000],
        ''volumes'' \<mapsto> [200000, 300000, 500000], ''timestamps'' \<mapsto> [100, 100, 100]] = [0, 1, 4]"
    by (simp add: surviving_source_ids_def surviving_observations_def fresh_observations_def
        observations_def list_at_def is_fresh_def within_deviation_def provisional_median_def)
next
  show "popcount 0 \<noteq> length [0, 1, 4 :: int]"
    by (simp add: popcount_zero)
qed (simp_all add: derive_market_context_def)

text \<open>
  C8, amended. Every MarketContext produced by the Context Builder satisfies
  \<open>source_count = popcount source_bitmap\<close>; both are zero for every input: no bit of the
  bitmap is set, whichever source ids are supplied and would survive freshness and outlier
  filtering.
\<close>

theorem source_count_is_popcount:
  "\<exists>c. fst (derive_market_context raw pair s lg) = Inr c
     \<and> source_count c = int (popcount (source_bitmap c))
     \<and> source_bitmap c = 0 \<and> source_count c = 0"
  by (simp add: derive_market_context_result popcount_zero)

theorem source_count_is_popcount_witness:
  "\<exists>c. fst (derive_market_context
       [''sources'' \<mapsto> [0, 1, 4], ''prices'' \<mapsto> [1000000000, 1000000000, 1000000000],
        ''volumes'' \<mapsto> [200000, 300000, 500000], ''timestamps'' \<mapsto> [100, 100, 100]]
       (normalize_asset_pair ''SOL/USDC'') 100 \<lparr>level = 20, handled = []\<rparr>) = Inr c
     \<and> source_count c = int (popcount (source_bitmap c))
     \<and> source_bitmap c = 0 \<and> source_count c = 0"
  by (rule source_count_is_popcount)

text \<open>
  C7 as stated fails: the Attestation Binder compares the measurement with nothing. It
  returns a receipt whose measurement is 32 zero bytes; against a whitelist that holds
  only the expected measurement of 32 bytes 171 this measurement does not match, yet the
  operation does not fail with UnverifiedEnclave, and the pipeline run with no variable
  set in the environment (asset pair \<^verbatim>\<open>SOL/USDC\<close>, 25 validity slots, model version
  00000001) assembles a FunctionResult around such a receipt.
\<close>

theorem unverified_enclave_counterexample:
  "fst (capture_tee_attestation
          \<lparr>slot = 0, asset_pair = normalize_asset_pair ''SOL/USDC'', price = 0, volume_24h = 0,
           volatility_1h = 0, liquidity_depth = 0, source_bitmap = 0, source_count = 0\<rparr>
          \<lparr>signal_type = MOMENTUM, direction = NEUTRAL, magnitude = 50, confidence = 0,
           valid_from_slot = 0, valid_until_slot = 25, model_version = [0, 0, 0, 1, 0, 0, 0, 0]\<rparr>
          0 \<lparr>level = 20, handled = []\<rparr>) =
     Inr \<lparr>enclave_signer = zero_bytes 32, attestation_hash = zero_bytes 32,
          mr_enclave = zero_bytes 32, timestamp_slot = 0, platform_version = 0\<rparr>
   \<and> zero_bytes 32 \<notin> set [replicate 32 (171 :: 8 word)]
   \<and> map_sum id tee_receipt
         (fst (execute_function
                 \<lparr>env_asset_pair = ''SOL/USDC'', env_validity_slots = Some 25,
                  env_asset_pair_encoded = Some [83, 79, 76, 47, 85, 83, 68, 67],
                  env_model_version = Some [0, 0, 0, 1, 0, 0, 0, 0]\<rparr>
                 \<lparr>level = 20, handled = []\<rparr>)) =
     Inr \<lparr>enclave_signer = zero_bytes 32, attestation_hash = zero_bytes 32,
          mr_enclave = zero_bytes 32, timestamp_slot = 0, platform_version = 0\<rparr>"
proof (intro conjI)
  show "zero_bytes 32 \<notin> set [replicate 32 (171 :: 8 word)]"
    by code_simp
next
  show "map_sum id tee_receipt
         (fst (execute_function
                 \<lparr>env_asset_pair = ''SOL/USDC'', env_validity_slots = Some 25,
                  env_asset_pair_encoded = Some [83, 79, 76, 47, 85, 83, 68, 67],
                  env_model_version = Some [0, 0, 0, 1, 0, 0, 0, 0]\<rparr>
                 \<lparr>level = 20, handled = []\<rparr>)) =
     Inr \<lparr>enclave_signer = zero_bytes 32, attestation_hash = zero_bytes 32,
          mr_enclave = zero_bytes 32, timestamp_slot = 0, platform_version = 0\<rparr>"
    by (simp add: execute_function_result)
qed (simp add: capture_tee_attestation_def)

text \<open>
  C7, amended. For every invocation, whatever measurement is expected or whitelisted, the
  Attestation Binder does not fail with UnverifiedEnclave: it returns a TeeReceipt whose
  \<open>mr_enclave\<close> is 32 zero bytes. No run of the pipeline ends with UnverifiedEnclave, and
  every run in which reading the request from the environment raises no exception
  assembles a FunctionResult that holds such a receipt.
\<close>

theorem enclave_never_verified:
  "fst (capture_tee_attestation c a s lg) \<noteq> Inl UnverifiedEnclave
   \<and> (\<exists>r. fst (capture_tee_attestation c a s lg) = Inr r \<and> mr_enclave r = zero_bytes 32)
   \<and> fst (execute_function env lg') \<noteq> Inl UnverifiedEnclave
   \<and> (env_validity_slots env \<noteq> None \<and> env_asset_pair_encoded env \<noteq> None
        \<and> env_model_version env \<noteq> None \<longrightarrow>
        (\<exists>fr. fst (execute_function env lg') = Inr fr
           \<and> mr_enclave (tee_receipt fr) = zero_bytes 32))"
  by (auto simp add: capture_tee_attestation_result execute_function_result
      split: option.splits)

theorem enclave_never_verified_witness:
  "fst (capture_tee_attestation
          \<lparr>slot = 7, asset_pair = normalize_asset_pair ''SOL/USDC'', price = 1000000000,
           volume_24h = 1000000, volatility_1h = 10, liquidity_depth = 500000,
           source_bitmap = 31, source_count = 5\<rparr>
          \<lparr>signal_type = MOMENTUM, direction = LONG, magnitude = 50, confidence = 80,
           valid_from_slot = 7, valid_until_slot = 32, model_version = [0, 0, 0, 1, 0, 0, 0, 0]\<rparr>
          7 \<lparr>level = 20, handled = []\<rparr>) \<noteq> Inl UnverifiedEnclave
   \<and> (\<exists>fr. fst (execute_function
                 \<lparr>env_asset_pair = ''SOL/USDC'', env_validity_slots = Some 25,
                  env_asset_pair_encoded = Some [83, 79, 76, 47, 85, 83, 68, 67],
                  env_model_version = Some [0, 0, 0, 1, 0, 0, 0, 0]\<rparr>
                 \<lparr>level = 20, handled = []\<rparr>) = Inr fr
          \<and> mr_enclave (tee_receipt fr) = zero_bytes 32)"
proof -
  have h: "env_validity_slots
         \<lparr>env_asset_pair = ''SOL/USDC'', env_validity_slots = Some 25,
          env_asset_pair_encoded = Some [83, 79, 76, 47, 85, 83, 68, 67],
          env_model_version = Some [0, 0, 0, 1, 0, 0, 0, 0]\<rparr> \<noteq> None
      \<and> env_asset_pair_encoded
         \<lparr>env_asset_pair = ''SOL/USDC'', env_validity_slots = Some 25,
          env_asset_pair_encoded = Some [83, 79, 76, 47, 85, 83, 68, 67],
          env_model_version = Some [0, 0, 0, 1, 0, 0, 0, 0]\<rparr> \<noteq> None
      \<and> env_model_version
         \<lparr>env_asset_pair = ''SOL/USDC'', env_validity_slots = Some 25,
          env_asset_pair_encoded = Some [83, 79, 76, 47, 85, 83, 68, 67],
          env_model_version = Some [0, 0, 0, 1, 0, 0, 0, 0]\<rparr> \<noteq> None"
    by simp
  from enclave_never_verified [of
      "\<lparr>slot = 7, asset_pair = normalize_asset_pair ''SOL/USDC'', price = 1000000000,
        volume_24h = 1000000, volatility_1h = 10, liquidity_depth = 500000,
        source_bitmap = 31, source_count = 5\<rparr>"
      "\<lparr>signal_type = MOMENTUM, direction = LONG, magnitude = 50, confidence = 80,
        valid_from_slot = 7, valid_until_slot = 32, model_version = [0, 0, 0, 1, 0, 0, 0, 0]\<rparr>"
      7 "\<lparr>level = 20, handled = []\<rparr>"
      "\<lparr>env_asset_pair = ''SOL/USDC'', env_validity_slots = Some 25,
        env_asset_pair_encoded = Some [83, 79, 76, 47, 85, 83, 68, 67],
        env_model_version = Some [0, 0, 0, 1, 0, 0, 0, 0]\<rparr>"
      "\<lparr>level = 20, handled = []\<rparr>"] h
  show ?thesis by blast
qed




end
